theory Spec2Isabelle
  imports Main
begin

section \<open>JavaScript values the pipeline handles\<close>

text \<open>
  A thrown value is either an \<open>Error\<close> instance with its message, or some other value,
  kept as its \<open>String(...)\<close> rendering. Both handlers of the source read a thrown value
  with \<open>error instanceof Error ? error.message : String(error)\<close>.
\<close>

datatype js_error = Error string | Thrown string

fun error_message :: "js_error \<Rightarrow> string" where
  "error_message (Error m) = m"
| "error_message (Thrown s) = s"

text \<open>
  Truthiness of an optional string (\<open>undefined\<close> is \<open>None\<close>): \<open>!s\<close> holds for
  \<open>undefined\<close> and for the empty string. \<open>or_else s d\<close> is \<open>s || d\<close>.
\<close>

fun truthy :: "string option \<Rightarrow> bool" where
  "truthy None = False"
| "truthy (Some s) = (s \<noteq> [])"

fun or_else :: "string option \<Rightarrow> string \<Rightarrow> string" where
  "or_else None d = d"
| "or_else (Some s) d = (if s = [] then d else s)"

text \<open>Decimal rendering of a number inside a template literal (\<open>${response.status}\<close>).\<close>

definition digit_char :: "nat \<Rightarrow> char" where
  "digit_char d = ''0123456789'' ! d"

fun show_nat :: "nat \<Rightarrow> string" where
  "show_nat n = (if n < 10 then [digit_char n] else show_nat (n div 10) @ [digit_char (n mod 10)])"

declare show_nat.simps [simp del]

text \<open>A JSON object all of whose fields are strings, in the order the source writes them.\<close>

type_synonym json_object = "(string \<times> string) list"

section \<open>Data model\<close>

text \<open>\<open>WebhookAnalysisSchema\<close>: the object the schema-constrained extraction returns.\<close>

datatype event_type = Release | Tag | Other

fun event_type_str :: "event_type \<Rightarrow> string" where
  "event_type_str Release = ''release''"
| "event_type_str Tag = ''tag''"
| "event_type_str Other = ''other''"

record analysis =
  isReleaseOrTagEvent :: bool
  eventType :: event_type
  repositoryName :: string
  version :: string
  reasoning :: string
  isSupported :: bool

text \<open>
  The request as the handler reads it: \<open>req.get("headers")\<close> (possibly \<open>undefined\<close>),
  \<open>req.data.text()\<close>, and \<open>req.data.object()\<close>, which throws on a body that is not JSON
  and otherwise yields an object whose optional \<open>payload\<close> has an optional \<open>action\<close>.
\<close>

record payload_object =
  action :: "string option"

record body_object =
  payload :: "payload_object option"

record request =
  req_headers :: "(string \<rightharpoonup> string) option"
  req_text :: string
  req_object :: "js_error + body_object"

text \<open>
  The \<open>fetch\<close> response as \<open>callDevinAPI\<close> reads it. \<open>response.json()\<close> throws on a body
  that is not JSON and otherwise resolves to any JSON value: \<open>null\<close>, an object, or an
  array, number, string or boolean. The code reads an object as a \<open>DevinApiResponse\<close>,
  whose \<open>sessionId\<close> is a string when it is there; \<open>None\<close> is a field that is absent
  or \<open>null\<close>.
\<close>

record devin_api_response =
  sessionId :: "string option"

datatype json_body = JsonNull | JsonObject devin_api_response | JsonOther

record http_response =
  ok :: bool
  status :: nat
  body_text :: "js_error + string"
  body_json :: "js_error + json_body"

record dispatch_result =
  result_sessionId :: string
  result_status :: nat

record verification_result =
  success :: bool
  message :: "string option"

text \<open>The key-value store of the agent context, keyed by namespace and key.\<close>

type_synonym kv_store = "string \<times> string \<rightharpoonup> json_object"

text \<open>
  The environment of one invocation: the process environment variables the code reads,
  the clock, and the behaviour of each external collaborator. The prompts are fixed
  templates, so a generation call is given the values the template interpolates:
  the raw payload text for \<open>generateObject\<close>; repository, event type, version and raw
  payload text for \<open>generateText\<close>. \<open>fetch\<close> is given the prompt it posts.
  \<open>kv_get_fault\<close> and \<open>kv_set_fault\<close> are the errors a store call throws, if any.
  \<open>null_read_message\<close> is the message of the \<open>TypeError\<close> the JavaScript engine throws
  when a property of \<open>null\<close> is read; its wording is the engine's.
\<close>

record env =
  AGENTUITY_ENVIRONMENT :: "string option"
  GITHUB_WEBHOOK_SECRET :: "string option"
  verify :: "string \<Rightarrow> string \<Rightarrow> string \<Rightarrow> js_error + bool"
  generateObject :: "string \<Rightarrow> js_error + analysis"
  generateText :: "string \<times> string \<times> string \<times> string \<Rightarrow> js_error + string"
  fetch :: "string \<Rightarrow> js_error + http_response"
  kv_get_fault :: "js_error option"
  kv_set_fault :: "js_error option"
  now :: string
  null_read_message :: string

text \<open>What an invocation does that an observer can see, in order.\<close>

datatype log_level = Info | Err

datatype event =
    Log log_level string
  | VerifyCalled
  | ClassifierCalled
  | KvGet string string
  | KvSet string string
  | SynthesizerCalled
  | DispatcherCalled

fun is_kv_get :: "event \<Rightarrow> bool" where
  "is_kv_get (KvGet ns k) = True"
| "is_kv_get e = False"

fun is_kv_set :: "event \<Rightarrow> bool" where
  "is_kv_set (KvSet ns k) = True"
| "is_kv_set e = False"

section \<open>utils/events.ts\<close>

definition generateEventKey :: "string \<Rightarrow> string \<Rightarrow> string \<Rightarrow> string" where
  "generateEventKey repository_name version_tag event_kind =
     ''changelog-event:'' @ repository_name @ '':'' @ version_tag @ '':'' @ event_kind"

section \<open>utils/github.ts\<close>

text \<open>
  \<open>verifyGitHubWebhook\<close> catches what \<open>verify\<close> throws, so it always returns a result.
  Past the two truthiness checks the signature and the secret are present, which is where
  the model reads them.
\<close>

definition signature_header :: "request \<Rightarrow> string option" where
  "signature_header req =
     (case req_headers req of None \<Rightarrow> None | Some headers \<Rightarrow> headers ''x-hub-signature-256'')"

definition verifyGitHubWebhook :: "env \<Rightarrow> request \<Rightarrow> verification_result \<times> event list" where
  "verifyGitHubWebhook e req =
     (let signature = signature_header req;
          webhookSecret = GITHUB_WEBHOOK_SECRET e
      in if \<not> truthy signature then
           (\<lparr>success = False, message = Some ''Missing X-Hub-Signature-256 header''\<rparr>,
            [Log Err ''No X-Hub-Signature-256 header found in the request''])
         else if \<not> truthy webhookSecret then
           (\<lparr>success = False,
             message = Some ''Server configuration error: webhook secret not configured''\<rparr>,
            [Log Err ''GITHUB_WEBHOOK_SECRET environment variable not set''])
         else
           (case verify e (the webhookSecret) (req_text req) (the signature) of
              Inl verificationError \<Rightarrow>
                (\<lparr>success = False, message = Some ''Error verifying webhook signature''\<rparr>,
                 [VerifyCalled, Log Err ''Error verifying webhook signature: %o''])
            | Inr isValid \<Rightarrow>
                if \<not> isValid then
                  (\<lparr>success = False, message = Some ''Invalid webhook signature''\<rparr>,
                   [VerifyCalled, Log Err ''Invalid webhook signature''])
                else
                  (\<lparr>success = True, message = None\<rparr>,
                   [VerifyCalled, Log Info ''Webhook signature verified successfully''])))"

section \<open>utils/devin.ts\<close>

text \<open>
  \<open>data.sessionId\<close>: reading the property of \<open>null\<close> throws a \<open>TypeError\<close>; an object
  without the field, an array and a primitive value give \<open>undefined\<close>.
\<close>

fun read_sessionId :: "env \<Rightarrow> json_body \<Rightarrow> js_error + string option" where
  "read_sessionId e JsonNull = Inl (Error (null_read_message e))"
| "read_sessionId e (JsonObject d) = Inr (sessionId d)"
| "read_sessionId e JsonOther = Inr None"

text \<open>
  The body of the \<open>try\<close> block of \<open>callDevinAPI\<close>. The session identifier is first read
  while the arguments of the log call are built, so a throw there comes before that log.
\<close>

definition callDevinAPI_try :: "env \<Rightarrow> string \<Rightarrow> (js_error + dispatch_result) \<times> event list" where
  "callDevinAPI_try e prompt =
     (case fetch e prompt of
        Inl err \<Rightarrow> (Inl err, [Log Info ''Calling Devin API'', DispatcherCalled])
      | Inr response \<Rightarrow>
          if \<not> ok response then
            (case body_text response of
               Inl err \<Rightarrow> (Inl err, [Log Info ''Calling Devin API'', DispatcherCalled])
             | Inr body \<Rightarrow>
                 (Inl (Error (''Devin API returned '' @ show_nat (status response) @ '': '' @ body)),
                  [Log Info ''Calling Devin API'', DispatcherCalled]))
          else
            (case body_json response of
               Inl err \<Rightarrow> (Inl err, [Log Info ''Calling Devin API'', DispatcherCalled])
             | Inr data \<Rightarrow>
                 (case read_sessionId e data of
                    Inl err \<Rightarrow> (Inl err, [Log Info ''Calling Devin API'', DispatcherCalled])
                  | Inr data_sessionId \<Rightarrow>
                      (Inr \<lparr>result_sessionId = or_else data_sessionId ''unknown'',
                            result_status = status response\<rparr>,
                       [Log Info ''Calling Devin API'', DispatcherCalled,
                        Log Info ''Devin API response:'']))))"

definition callDevinAPI :: "env \<Rightarrow> string \<Rightarrow> (js_error + dispatch_result) \<times> event list" where
  "callDevinAPI e prompt =
     (case callDevinAPI_try e prompt of
        (Inr r, evs) \<Rightarrow> (Inr r, evs)
      | (Inl error, evs) \<Rightarrow>
          (Inl (Error (''Failed to call Devin API: '' @ error_message error)),
           evs @ [Log Err ''Error calling Devin API: %o'']))"

section \<open>The key-value store\<close>

text \<open>
  Modelled from the spec: the store of the hosting SDK's agent context (\<open>ctx.kv\<close>), which
  is not part of the repository. Its interface is \<open>get(namespace, key)\<close>, returning an
  object with \<open>exists\<close>, and \<open>set(namespace, key, value)\<close>. Either call may throw; a
  \<open>set\<close> that throws leaves the store as it was.
\<close>

definition kv_get :: "env \<Rightarrow> kv_store \<Rightarrow> string \<Rightarrow> string \<Rightarrow> js_error + bool" where
  "kv_get e st ns key =
     (case kv_get_fault e of Some err \<Rightarrow> Inl err | None \<Rightarrow> Inr (st (ns, key) \<noteq> None))"

definition kv_set :: "env \<Rightarrow> kv_store \<Rightarrow> string \<Rightarrow> string \<Rightarrow> json_object \<Rightarrow> js_error + kv_store" where
  "kv_set e st ns key v =
     (case kv_set_fault e of Some err \<Rightarrow> Inl err | None \<Rightarrow> Inr (st((ns, key) \<mapsto> v)))"

section \<open>The agent: \<open>ChangelogAgent\<close>\<close>

text \<open>
  A stage returns what it produced (a response, or the value it threw), the store it
  leaves and the events it caused. \<open>emit evs r\<close> puts \<open>evs\<close> before the events of \<open>r\<close>.
\<close>

type_synonym outcome = "(js_error + json_object) \<times> kv_store \<times> event list"

definition emit :: "event list \<Rightarrow> outcome \<Rightarrow> outcome" where
  "emit evs r = (case r of (x, st, tr) \<Rightarrow> (x, st, evs @ tr))"

definition processed_events :: string where
  "processed_events = ''agent-changelog-processed-events''"

text \<open>Source lines 154 to 222: prompt generation, dispatch, store write, success.\<close>

definition synthesize_and_dispatch :: "env \<Rightarrow> request \<Rightarrow> analysis \<Rightarrow> string \<Rightarrow> kv_store \<Rightarrow> outcome" where
  "synthesize_and_dispatch e req a eventKey st =
     emit [SynthesizerCalled]
       (case generateText e
               (repositoryName a, event_type_str (eventType a),
                or_else (Some (version a)) ''unknown - figure it out'', req_text req) of
          Inl err \<Rightarrow> (Inl err, st, [])
        | Inr devinPrompt \<Rightarrow>
            emit [Log Info ''Generated Devin prompt'']
              (case callDevinAPI e devinPrompt of
                 (Inl err, evs) \<Rightarrow> (Inl err, st, evs)
               | (Inr devinResponse, evs) \<Rightarrow>
                   emit (evs @ [KvSet processed_events eventKey])
                     (case kv_set e st processed_events eventKey
                             [(''repository'', repositoryName a),
                              (''version'', version a),
                              (''eventType'', event_type_str (eventType a)),
                              (''processedAt'', now e),
                              (''devinSessionId'', result_sessionId devinResponse)] of
                        Inl err \<Rightarrow> (Inl err, st, [])
                      | Inr st' \<Rightarrow>
                          (Inr [(''status'', ''success''),
                                (''repository'', repositoryName a),
                                (''eventType'', event_type_str (eventType a)),
                                (''version'', version a),
                                (''devinSessionId'', result_sessionId devinResponse)],
                           st', []))))"

text \<open>Source lines 105 to 152: event key, store lookup, published-release check.\<close>

definition dedup_and_dispatch :: "env \<Rightarrow> request \<Rightarrow> string option \<Rightarrow> analysis \<Rightarrow> kv_store \<Rightarrow> outcome" where
  "dedup_and_dispatch e req act a st =
     (let eventKey = generateEventKey (repositoryName a) (version a) (event_type_str (eventType a))
      in emit [KvGet processed_events eventKey]
           (case kv_get e st processed_events eventKey of
              Inl err \<Rightarrow> (Inl err, st, [])
            | Inr existingEvent \<Rightarrow>
                emit [Log Info ''Existing event:'']
                  (if existingEvent then
                     (Inr [(''status'', ''already_processed''),
                           (''repository'', repositoryName a),
                           (''eventType'', event_type_str (eventType a)),
                           (''version'', version a),
                           (''message'', ''This event has already been processed'')],
                      st, [Log Info ''Event already processed:''])
                   else if eventType a = Release \<and> act \<noteq> Some ''published'' then
                     (Inr [(''status'', ''ignored''),
                           (''reason'', ''Only published releases are processed'')],
                      st, [Log Info ''Ignoring non-published release event:''])
                   else synthesize_and_dispatch e req a eventKey st)))"

text \<open>Source lines 65 to 103: body object, classification, ignore check.\<close>

definition analyse_and_process :: "env \<Rightarrow> request \<Rightarrow> kv_store \<Rightarrow> outcome" where
  "analyse_and_process e req st =
     (case req_object req of
        Inl err \<Rightarrow> (Inl err, st, [])
      | Inr body \<Rightarrow>
          emit [ClassifierCalled]
            (case generateObject e (req_text req) of
               Inl err \<Rightarrow> (Inl err, st, [])
             | Inr a \<Rightarrow>
                 emit [Log Info ''Webhook analysis:'']
                   (if \<not> isReleaseOrTagEvent a \<or> \<not> isSupported a then
                      (Inr [(''status'', ''ignored''), (''reason'', reasoning a)], st, [])
                    else
                      dedup_and_dispatch e req
                        (case payload body of None \<Rightarrow> None | Some p \<Rightarrow> action p) a st)))"

text \<open>Source lines 43 to 63, the \<open>try\<close> block from its start: signature gate.\<close>

definition ChangelogAgent_try :: "env \<Rightarrow> request \<Rightarrow> kv_store \<Rightarrow> outcome" where
  "ChangelogAgent_try e req st =
     emit [Log Info ''Received webhook request'']
       (if AGENTUITY_ENVIRONMENT e = Some ''development'' then
          emit [Log Info ''Running in local development mode - skipping webhook signature verification'']
            (analyse_and_process e req st)
        else
          (case verifyGitHubWebhook e req of
             (verificationResult, evs) \<Rightarrow>
               if \<not> success verificationResult then
                 (Inr [(''status'', ''error''),
                       (''message'',
                        or_else (message verificationResult) ''Unknown verification error'')],
                  st, evs)
               else emit evs (analyse_and_process e req st)))"

text \<open>The handler: the \<open>try\<close> block and its \<open>catch\<close> (source lines 223 to 231).\<close>

definition ChangelogAgent :: "env \<Rightarrow> request \<Rightarrow> kv_store \<Rightarrow> outcome" where
  "ChangelogAgent e req st =
     (case ChangelogAgent_try e req st of
        (Inr r, st', tr) \<Rightarrow> (Inr r, st', tr)
      | (Inl error, st', tr) \<Rightarrow>
          (Inr [(''status'', ''error''), (''message'', error_message error)],
           st', tr @ [Log Err ''Error processing webhook: %o'']))"

section \<open>Observations on a trace, and concrete inputs\<close>

fun is_log :: "event \<Rightarrow> bool" where
  "is_log (Log l m) = True"
| "is_log e = False"

text \<open>
  The scenario of the specification: a signed, published release \<open>v1.4.0\<close> of \<open>sdk-js\<close>,
  delivered in production with every collaborator answering.
\<close>

definition sdk_js_release :: analysis where
  "sdk_js_release =
     \<lparr>isReleaseOrTagEvent = True, eventType = Release, repositoryName = ''sdk-js'',
      version = ''v1.4.0'', reasoning = ''published release of a supported repository'',
      isSupported = True\<rparr>"

definition website_release :: analysis where
  "website_release =
     \<lparr>isReleaseOrTagEvent = True, eventType = Release, repositoryName = ''website'',
      version = ''v3.0.0'', reasoning = ''repository is not in the catalog'',
      isSupported = False\<rparr>"

definition signed_request :: request where
  "signed_request =
     \<lparr>req_headers = Some [''x-hub-signature-256'' \<mapsto> ''sha256=5d41''],
      req_text = ''{payload: {action: published}}'',
      req_object = Inr \<lparr>payload = Some \<lparr>action = Some ''published''\<rparr>\<rparr>\<rparr>"

definition production_env :: env where
  "production_env =
     \<lparr>AGENTUITY_ENVIRONMENT = Some ''production'',
      GITHUB_WEBHOOK_SECRET = Some ''s3cret'',
      verify = (\<lambda>secret payload signature. Inr (signature = ''sha256=5d41'')),
      generateObject = (\<lambda>text. Inr sdk_js_release),
      generateText = (\<lambda>p. Inr ''Update the changelog of sdk-js for v1.4.0''),
      fetch = (\<lambda>prompt. Inr \<lparr>ok = True, status = 200, body_text = Inr ''{}'',
                 body_json = Inr (JsonObject \<lparr>sessionId = Some ''devin-42''\<rparr>)\<rparr>),
      kv_get_fault = None, kv_set_fault = None, now = ''2025-05-01T12:00:00.000Z'',
      null_read_message = ''Cannot read properties of null (reading 'sessionId')''\<rparr>"

lemmas pipeline_defs = ChangelogAgent_def ChangelogAgent_try_def analyse_and_process_def
  dedup_and_dispatch_def synthesize_and_dispatch_def callDevinAPI_def callDevinAPI_try_def
  verifyGitHubWebhook_def signature_header_def kv_get_def kv_set_def emit_def
  generateEventKey_def processed_events_def Let_def

lemmas example_defs = production_env_def signed_request_def sdk_js_release_def
  website_release_def

section \<open>Stage lemmas\<close>

lemma emit_tuple [simp]: "emit evs (x, st, tr) = (x, st, evs @ tr)"
  by (simp add: emit_def)

lemma fst_emit [simp]: "fst (emit evs r) = fst r"
  by (cases r) simp

lemma emit_emit [simp]: "emit evs (emit evs' r) = emit (evs @ evs') r"
  by (cases r) simp

lemma verify_events:
  "ev \<in> set (snd (verifyGitHubWebhook e req)) \<Longrightarrow> ev = VerifyCalled \<or> is_log ev"
  by (auto simp: verifyGitHubWebhook_def Let_def split: sum.splits if_splits)

lemma gate_open:
  assumes "AGENTUITY_ENVIRONMENT e = Some ''development'' \<or> success (fst (verifyGitHubWebhook e req))"
  shows "\<exists>evs. ChangelogAgent_try e req st = emit evs (analyse_and_process e req st) \<and>
           (\<forall>ev \<in> set evs. ev = VerifyCalled \<or> is_log ev)"
proof (cases "AGENTUITY_ENVIRONMENT e = Some ''development''")
  case True
  then have "ChangelogAgent_try e req st =
      emit [Log Info ''Received webhook request'',
            Log Info ''Running in local development mode - skipping webhook signature verification'']
        (analyse_and_process e req st)"
    by (simp add: ChangelogAgent_try_def)
  then show ?thesis by (rule exI [where P = "\<lambda>evs. _ evs \<and> _ evs", OF conjI]) simp
next
  case False
  with assms have ok: "success (fst (verifyGitHubWebhook e req))" by simp
  obtain v evs where v: "verifyGitHubWebhook e req = (v, evs)" by (cases "verifyGitHubWebhook e req")
  with verify_events [of _ e req] have "\<forall>ev \<in> set evs. ev = VerifyCalled \<or> is_log ev" by simp
  moreover from False ok v have "ChangelogAgent_try e req st =
      emit (Log Info ''Received webhook request'' # evs) (analyse_and_process e req st)"
    by (simp add: ChangelogAgent_try_def)
  ultimately show ?thesis by (intro exI [of _ "Log Info ''Received webhook request'' # evs"]) simp
qed

lemma gate_events_quiet:
  assumes "\<forall>ev \<in> set evs. ev = VerifyCalled \<or> is_log ev"
  shows "\<not> list_ex is_kv_get evs" and "\<not> list_ex is_kv_set evs"
    and "DispatcherCalled \<notin> set evs" and "ClassifierCalled \<notin> set evs"
proof -
  have "\<not> is_kv_get ev \<and> \<not> is_kv_set ev \<and> ev \<noteq> DispatcherCalled \<and> ev \<noteq> ClassifierCalled"
    if "ev = VerifyCalled \<or> is_log ev" for ev
    using that by (cases ev) auto
  with assms show "\<not> list_ex is_kv_get evs" and "\<not> list_ex is_kv_set evs"
    and "DispatcherCalled \<notin> set evs" and "ClassifierCalled \<notin> set evs"
    by (auto simp: list_ex_iff)
qed

lemma gate_closed:
  assumes "AGENTUITY_ENVIRONMENT e \<noteq> Some ''development''"
    and "\<not> success (fst (verifyGitHubWebhook e req))"
  shows "ChangelogAgent e req st =
           (Inr [(''status'', ''error''),
                 (''message'',
                  or_else (message (fst (verifyGitHubWebhook e req))) ''Unknown verification error'')],
            st, Log Info ''Received webhook request'' # snd (verifyGitHubWebhook e req))"
  using assms
  by (cases "verifyGitHubWebhook e req") (simp add: ChangelogAgent_def ChangelogAgent_try_def)

lemma handler_emit:
  "ChangelogAgent_try e req st = emit evs (Inr r, st', tr) \<Longrightarrow>
     ChangelogAgent e req st = (Inr r, st', evs @ tr)"
  by (simp add: ChangelogAgent_def)

lemma handler_emit_error:
  "ChangelogAgent_try e req st = emit evs (Inl err, st', tr) \<Longrightarrow>
     ChangelogAgent e req st =
       (Inr [(''status'', ''error''), (''message'', error_message err)], st',
        evs @ tr @ [Log Err ''Error processing webhook: %o''])"
  by (simp add: ChangelogAgent_def)

lemma analyse_ignored:
  assumes "req_object req = Inr body" and "generateObject e (req_text req) = Inr a"
    and "\<not> isReleaseOrTagEvent a \<or> \<not> isSupported a"
  shows "analyse_and_process e req st =
           (Inr [(''status'', ''ignored''), (''reason'', reasoning a)], st,
            [ClassifierCalled, Log Info ''Webhook analysis:''])"
  using assms by (auto simp: analyse_and_process_def)

lemma analyse_actionable:
  assumes "req_object req = Inr body" and "generateObject e (req_text req) = Inr a"
    and "isReleaseOrTagEvent a" and "isSupported a"
  shows "analyse_and_process e req st =
           emit [ClassifierCalled, Log Info ''Webhook analysis:'']
             (dedup_and_dispatch e req
                (case payload body of None \<Rightarrow> None | Some p \<Rightarrow> action p) a st)"
  using assms by (simp add: analyse_and_process_def)

lemma dedup_existing:
  assumes "kv_get e st processed_events
             (generateEventKey (repositoryName a) (version a) (event_type_str (eventType a))) =
           Inr True"
  shows "dedup_and_dispatch e req act a st =
           (Inr [(''status'', ''already_processed''),
                 (''repository'', repositoryName a),
                 (''eventType'', event_type_str (eventType a)),
                 (''version'', version a),
                 (''message'', ''This event has already been processed'')],
            st,
            [KvGet processed_events
               (generateEventKey (repositoryName a) (version a) (event_type_str (eventType a))),
             Log Info ''Existing event:'', Log Info ''Event already processed:''])"
  using assms by (simp add: dedup_and_dispatch_def Let_def)

lemma dedup_unpublished:
  assumes "kv_get e st processed_events
             (generateEventKey (repositoryName a) (version a) (event_type_str (eventType a))) =
           Inr False"
    and "eventType a = Release" and "act \<noteq> Some ''published''"
  shows "dedup_and_dispatch e req act a st =
           (Inr [(''status'', ''ignored''), (''reason'', ''Only published releases are processed'')],
            st,
            [KvGet processed_events
               (generateEventKey (repositoryName a) (version a) (event_type_str (eventType a))),
             Log Info ''Existing event:'', Log Info ''Ignoring non-published release event:''])"
  using assms by (simp add: dedup_and_dispatch_def Let_def)

lemma dedup_fresh:
  assumes "kv_get e st processed_events
             (generateEventKey (repositoryName a) (version a) (event_type_str (eventType a))) =
           Inr False"
    and "eventType a = Release \<longrightarrow> act = Some ''published''"
  shows "dedup_and_dispatch e req act a st =
           emit [KvGet processed_events
                   (generateEventKey (repositoryName a) (version a) (event_type_str (eventType a))),
                 Log Info ''Existing event:'']
             (synthesize_and_dispatch e req a
                (generateEventKey (repositoryName a) (version a) (event_type_str (eventType a))) st)"
  using assms by (auto simp: dedup_and_dispatch_def Let_def)

lemma synth_status:
  "fst (synthesize_and_dispatch e req a k st) = Inr r \<Longrightarrow> map_of r ''status'' = Some ''success''"
  by (auto simp: synthesize_and_dispatch_def split: sum.splits prod.splits)

lemma dedup_status:
  "fst (dedup_and_dispatch e req act a st) = Inr r \<Longrightarrow>
     map_of r ''status'' \<in> {Some ''success'', Some ''ignored'', Some ''already_processed''}"
  by (auto simp: dedup_and_dispatch_def Let_def dest: synth_status split: sum.splits if_splits)

lemma analyse_status:
  "fst (analyse_and_process e req st) = Inr r \<Longrightarrow>
     map_of r ''status'' \<in> {Some ''success'', Some ''ignored'', Some ''already_processed''}"
  by (auto simp: analyse_and_process_def dest: dedup_status split: sum.splits if_splits)

lemma try_status:
  "fst (ChangelogAgent_try e req st) = Inr r \<Longrightarrow>
     map_of r ''status'' \<in>
       {Some ''success'', Some ''ignored'', Some ''already_processed'', Some ''error''}"
  by (auto simp: ChangelogAgent_try_def dest: analyse_status split: prod.splits if_splits)

lemma callDevinAPI_not_ok:
  assumes "fetch e p = Inr response" and "\<not> ok response" and "body_text response = Inr b"
  shows "callDevinAPI e p =
           (Inl (Error (''Failed to call Devin API: Devin API returned '' @
                        show_nat (status response) @ '': '' @ b)),
            [Log Info ''Calling Devin API'', DispatcherCalled, Log Err ''Error calling Devin API: %o''])"
  using assms by (simp add: callDevinAPI_def callDevinAPI_try_def)

lemma callDevinAPI_no_handle:
  assumes "fetch e p = Inr response" and "ok response" and "body_json response = Inr data"
    and "read_sessionId e data = Inr sid" and "\<not> truthy sid"
  shows "callDevinAPI e p =
           (Inr \<lparr>result_sessionId = ''unknown'', result_status = status response\<rparr>,
            [Log Info ''Calling Devin API'', DispatcherCalled, Log Info ''Devin API response:''])"
proof -
  from assms(5) have "or_else sid ''unknown'' = ''unknown''"
    by (cases sid) auto
  with assms(1-4) show ?thesis by (simp add: callDevinAPI_def callDevinAPI_try_def)
qed

lemma callDevinAPI_events:
  "count_list (snd (callDevinAPI e p)) DispatcherCalled = 1 \<and>
   \<not> list_ex is_kv_set (snd (callDevinAPI e p)) \<and> \<not> list_ex is_kv_get (snd (callDevinAPI e p))"
  by (simp add: callDevinAPI_def callDevinAPI_try_def split: sum.splits prod.splits)

lemma callDevinAPI_dispatches: "DispatcherCalled \<in> set (snd (callDevinAPI e p))"
  by (simp add: callDevinAPI_def callDevinAPI_try_def split: sum.splits prod.splits)

lemma synth_dispatch_failed:
  assumes "generateText e (repositoryName a, event_type_str (eventType a),
             or_else (Some (version a)) ''unknown - figure it out'', req_text req) = Inr p"
    and "callDevinAPI e p = (Inl err, evs)"
  shows "synthesize_and_dispatch e req a k st =
           (Inl err, st, [SynthesizerCalled, Log Info ''Generated Devin prompt''] @ evs)"
  using assms by (simp add: synthesize_and_dispatch_def)

lemma synth_write_failed:
  assumes "generateText e (repositoryName a, event_type_str (eventType a),
             or_else (Some (version a)) ''unknown - figure it out'', req_text req) = Inr p"
    and "callDevinAPI e p = (Inr d, evs)"
    and "kv_set_fault e = Some err"
  shows "synthesize_and_dispatch e req a k st =
           (Inl err, st,
            [SynthesizerCalled, Log Info ''Generated Devin prompt''] @ evs @
            [KvSet processed_events k])"
  using assms by (simp add: synthesize_and_dispatch_def kv_set_def)

lemma synth_recorded:
  assumes "generateText e (repositoryName a, event_type_str (eventType a),
             or_else (Some (version a)) ''unknown - figure it out'', req_text req) = Inr p"
    and "callDevinAPI e p = (Inr d, evs)"
    and "kv_set_fault e = None"
  shows "synthesize_and_dispatch e req a k st =
           (Inr [(''status'', ''success''),
                 (''repository'', repositoryName a),
                 (''eventType'', event_type_str (eventType a)),
                 (''version'', version a),
                 (''devinSessionId'', result_sessionId d)],
            st((processed_events, k) \<mapsto>
                 [(''repository'', repositoryName a),
                  (''version'', version a),
                  (''eventType'', event_type_str (eventType a)),
                  (''processedAt'', now e),
                  (''devinSessionId'', result_sessionId d)]),
            [SynthesizerCalled, Log Info ''Generated Devin prompt''] @ evs @
            [KvSet processed_events k])"
  using assms by (simp add: synthesize_and_dispatch_def kv_set_def)

text \<open>
  The run up to the dispatch stage, for a request that passes the gate and an event that is
  actionable, supported, not yet recorded and, if a release, published.
\<close>

lemma reaches_dispatch:
  assumes gate: "AGENTUITY_ENVIRONMENT e = Some ''development'' \<or>
                 success (fst (verifyGitHubWebhook e req))"
    and body: "req_object req = Inr body"
    and classified: "generateObject e (req_text req) = Inr a"
    and actionable: "isReleaseOrTagEvent a" "isSupported a"
    and fresh: "kv_get e st processed_events
                  (generateEventKey (repositoryName a) (version a) (event_type_str (eventType a))) =
                Inr False"
    and published: "eventType a = Release \<longrightarrow>
                    (case payload body of None \<Rightarrow> None | Some p \<Rightarrow> action p) = Some ''published''"
  shows "\<exists>evs. ChangelogAgent_try e req st =
                 emit evs (synthesize_and_dispatch e req a
                   (generateEventKey (repositoryName a) (version a) (event_type_str (eventType a))) st) \<and>
               \<not> list_ex is_kv_set evs \<and> DispatcherCalled \<notin> set evs"
proof -
  let ?k = "generateEventKey (repositoryName a) (version a) (event_type_str (eventType a))"
  from gate_open [OF gate] obtain evs where
    run: "ChangelogAgent_try e req st = emit evs (analyse_and_process e req st)" and
    evs: "\<forall>ev \<in> set evs. ev = VerifyCalled \<or> is_log ev" by blast
  let ?evs = "evs @ [ClassifierCalled, Log Info ''Webhook analysis:'', KvGet processed_events ?k,
                     Log Info ''Existing event:'']"
  from run have "ChangelogAgent_try e req st = emit ?evs (synthesize_and_dispatch e req a ?k st)"
    by (simp add: analyse_actionable [OF body classified actionable]
        dedup_fresh [OF fresh published])
  moreover from gate_events_quiet [OF evs]
  have "\<not> list_ex is_kv_set ?evs \<and> DispatcherCalled \<notin> set ?evs" by simp
  ultimately show ?thesis by blast
qed

text \<open>
  What fails the signature check: no signature, no secret, or a signature that the
  verification rejects or cannot process.
\<close>

lemma verification_fails:
  assumes "\<not> truthy (signature_header req) \<or> \<not> truthy (GITHUB_WEBHOOK_SECRET e) \<or>
           (\<exists>s k. signature_header req = Some s \<and> GITHUB_WEBHOOK_SECRET e = Some k \<and>
                   verify e k (req_text req) s \<noteq> Inr True)"
  shows "\<not> success (fst (verifyGitHubWebhook e req)) \<and>
         message (fst (verifyGitHubWebhook e req)) \<in>
           {Some ''Missing X-Hub-Signature-256 header'',
            Some ''Server configuration error: webhook secret not configured'',
            Some ''Error verifying webhook signature'',
            Some ''Invalid webhook signature''}"
  using assms
  by (auto simp: verifyGitHubWebhook_def Let_def split: sum.splits)

text \<open>
  A successful response determines the path the run took: the gate was passed, the event
  was classified as actionable and supported, the lookup succeeded, the dispatcher was
  called once and the record is in the store.
\<close>

lemma count_gate_events:
  assumes "\<forall>ev \<in> set evs. ev = VerifyCalled \<or> is_log ev"
  shows "count_list evs DispatcherCalled = 0"
  using gate_events_quiet(3) [OF assms] by (simp add: count_list_0_iff)

lemma synth_success_inv:
  assumes run: "synthesize_and_dispatch e req a k st = (Inr r, st1, tr)"
  shows "st1 (processed_events, k) \<noteq> None \<and> count_list tr DispatcherCalled = 1"
proof (cases "generateText e (repositoryName a, event_type_str (eventType a),
                or_else (Some (version a)) ''unknown - figure it out'', req_text req)")
  case (Inl err)
  with run show ?thesis by (simp add: synthesize_and_dispatch_def)
next
  case prompt: (Inr p)
  obtain x evs where sent: "callDevinAPI e p = (x, evs)" by (cases "callDevinAPI e p")
  with callDevinAPI_events [of e p] have count: "count_list evs DispatcherCalled = 1" by simp
  show ?thesis
  proof (cases x)
    case (Inl err)
    with run prompt sent show ?thesis by (simp add: synthesize_and_dispatch_def)
  next
    case (Inr d)
    with run prompt sent count show ?thesis
      by (cases "kv_set_fault e") (auto simp: synthesize_and_dispatch_def kv_set_def)
  qed
qed

lemma dedup_success_inv:
  assumes run: "dedup_and_dispatch e req act a st = (Inr r, st1, tr)"
    and ok: "map_of r ''status'' = Some ''success''"
  shows "kv_get_fault e = None \<and>
         st1 (processed_events,
              generateEventKey (repositoryName a) (version a) (event_type_str (eventType a))) \<noteq> None \<and>
         count_list tr DispatcherCalled = 1"
proof -
  let ?k = "generateEventKey (repositoryName a) (version a) (event_type_str (eventType a))"
  obtain x st2 tr2 where inner: "synthesize_and_dispatch e req a ?k st = (x, st2, tr2)"
    by (cases "synthesize_and_dispatch e req a ?k st")
  from run ok inner have "kv_get_fault e = None \<and> x = Inr r \<and> st2 = st1 \<and>
      tr = [KvGet processed_events ?k, Log Info ''Existing event:''] @ tr2"
    by (auto simp: dedup_and_dispatch_def kv_get_def Let_def split: option.splits if_splits)
  with synth_success_inv [of e req a ?k st r st1 tr2] inner show ?thesis by simp
qed

lemma analyse_success_inv:
  assumes run: "analyse_and_process e req st = (Inr r, st1, tr)"
    and ok: "map_of r ''status'' = Some ''success''"
  shows "\<exists>body a. req_object req = Inr body \<and> generateObject e (req_text req) = Inr a \<and>
           isReleaseOrTagEvent a \<and> isSupported a \<and> kv_get_fault e = None \<and>
           st1 (processed_events,
                generateEventKey (repositoryName a) (version a) (event_type_str (eventType a))) \<noteq> None \<and>
           count_list tr DispatcherCalled = 1"
proof (cases "req_object req")
  case (Inl err)
  with run show ?thesis by (simp add: analyse_and_process_def)
next
  case body: (Inr body)
  show ?thesis
  proof (cases "generateObject e (req_text req)")
    case (Inl err)
    with run body show ?thesis by (simp add: analyse_and_process_def)
  next
    case classified: (Inr a)
    let ?act = "case payload body of None \<Rightarrow> None | Some p \<Rightarrow> action p"
    obtain x st2 tr2 where inner: "dedup_and_dispatch e req ?act a st = (x, st2, tr2)"
      by (cases "dedup_and_dispatch e req ?act a st")
    from run ok body classified inner have "isReleaseOrTagEvent a \<and> isSupported a \<and>
        x = Inr r \<and> st2 = st1 \<and> tr = [ClassifierCalled, Log Info ''Webhook analysis:''] @ tr2"
      by (auto simp: analyse_and_process_def split: if_splits)
    with dedup_success_inv [of e req ?act a st r st1 tr2] inner ok body classified
    show ?thesis by simp
  qed
qed

lemma handler_success_inv:
  assumes run: "ChangelogAgent e req st = (Inr r, st1, tr)"
    and ok: "map_of r ''status'' = Some ''success''"
  shows "(AGENTUITY_ENVIRONMENT e = Some ''development'' \<or> success (fst (verifyGitHubWebhook e req))) \<and>
         (\<exists>body a. req_object req = Inr body \<and> generateObject e (req_text req) = Inr a \<and>
           isReleaseOrTagEvent a \<and> isSupported a \<and> kv_get_fault e = None \<and>
           st1 (processed_events,
                generateEventKey (repositoryName a) (version a) (event_type_str (eventType a))) \<noteq> None) \<and>
         count_list tr DispatcherCalled = 1"
proof -
  from run ok have tried: "ChangelogAgent_try e req st = (Inr r, st1, tr)"
    by (auto simp: ChangelogAgent_def split: prod.splits sum.splits)
  have gate: "AGENTUITY_ENVIRONMENT e = Some ''development'' \<or> success (fst (verifyGitHubWebhook e req))"
  proof (rule ccontr)
    assume "\<not> ?thesis"
    then have "AGENTUITY_ENVIRONMENT e \<noteq> Some ''development''"
      and "\<not> success (fst (verifyGitHubWebhook e req))" by simp_all
    from gate_closed [OF this, of st] run ok show False by simp
  qed
  from gate_open [OF gate] obtain evs where
    open_run: "ChangelogAgent_try e req st = emit evs (analyse_and_process e req st)" and
    evs: "\<forall>ev \<in> set evs. ev = VerifyCalled \<or> is_log ev" by blast
  obtain x st2 tr2 where inner: "analyse_and_process e req st = (x, st2, tr2)"
    by (cases "analyse_and_process e req st")
  with tried open_run have "x = Inr r \<and> st2 = st1 \<and> tr = evs @ tr2" by simp
  with analyse_success_inv [of e req st r st1 tr2] inner ok count_gate_events [OF evs] gate
  show ?thesis by auto
qed

lemma already_processed_run:
  assumes gate: "AGENTUITY_ENVIRONMENT e = Some ''development'' \<or>
                 success (fst (verifyGitHubWebhook e req))"
    and body: "req_object req = Inr body"
    and classified: "generateObject e (req_text req) = Inr a"
    and actionable: "isReleaseOrTagEvent a" "isSupported a"
    and existing: "kv_get e st processed_events
                     (generateEventKey (repositoryName a) (version a) (event_type_str (eventType a))) =
                   Inr True"
  shows "\<exists>tr. ChangelogAgent e req st =
                 (Inr [(''status'', ''already_processed''),
                       (''repository'', repositoryName a),
                       (''eventType'', event_type_str (eventType a)),
                       (''version'', version a),
                       (''message'', ''This event has already been processed'')],
                  st, tr) \<and>
               DispatcherCalled \<notin> set tr \<and> \<not> list_ex is_kv_set tr"
proof -
  let ?k = "generateEventKey (repositoryName a) (version a) (event_type_str (eventType a))"
  from gate_open [OF gate] obtain evs where
    run: "ChangelogAgent_try e req st = emit evs (analyse_and_process e req st)" and
    evs: "\<forall>ev \<in> set evs. ev = VerifyCalled \<or> is_log ev" by blast
  from run have "ChangelogAgent_try e req st =
      emit (evs @ [ClassifierCalled, Log Info ''Webhook analysis:''])
        (Inr [(''status'', ''already_processed''),
              (''repository'', repositoryName a),
              (''eventType'', event_type_str (eventType a)),
              (''version'', version a),
              (''message'', ''This event has already been processed'')],
         st,
         [KvGet processed_events ?k, Log Info ''Existing event:'',
          Log Info ''Event already processed:''])"
    by (simp add: analyse_actionable [OF body classified actionable] dedup_existing [OF existing])
  from handler_emit [OF this] gate_events_quiet [OF evs] show ?thesis by simp
qed

lemma show_nat_500: "show_nat 500 = ''500''"
  by (simp add: show_nat.simps digit_char_def)

section \<open>The event key\<close>

text \<open>
  C5. The event key is a function of repository name, version and event type alone: two
  analyses that agree on these three fields get the same key, whatever their other fields
  (the rationale, the support flags), and the key is
  \<open>changelog-event:<repositoryName>:<version>:<eventType>\<close>.
\<close>

theorem event_key_same_for_same_triple:
  assumes "repositoryName a = repositoryName b" and "version a = version b"
    and "eventType a = eventType b"
  shows "generateEventKey (repositoryName a) (version a) (event_type_str (eventType a)) =
         generateEventKey (repositoryName b) (version b) (event_type_str (eventType b)) \<and>
         generateEventKey (repositoryName a) (version a) (event_type_str (eventType a)) =
         ''changelog-event:'' @ repositoryName a @ '':'' @ version a @ '':'' @
           event_type_str (eventType a)"
  using assms by (simp add: generateEventKey_def)

theorem event_key_same_for_same_triple_witness:
  "generateEventKey (repositoryName sdk_js_release) (version sdk_js_release)
     (event_type_str (eventType sdk_js_release)) =
   generateEventKey
     (repositoryName (sdk_js_release\<lparr>reasoning := ''another rationale'', isSupported := False\<rparr>))
     (version (sdk_js_release\<lparr>reasoning := ''another rationale'', isSupported := False\<rparr>))
     (event_type_str
        (eventType (sdk_js_release\<lparr>reasoning := ''another rationale'', isSupported := False\<rparr>))) \<and>
   generateEventKey (repositoryName sdk_js_release) (version sdk_js_release)
     (event_type_str (eventType sdk_js_release)) = ''changelog-event:sdk-js:v1.4.0:release''"
  using event_key_same_for_same_triple
    [of sdk_js_release "sdk_js_release\<lparr>reasoning := ''another rationale'', isSupported := False\<rparr>"]
  by (simp add: sdk_js_release_def)

text \<open>
  C10. The event key is not injective: the distinct triples \<open>(a:b, c, release)\<close> and
  \<open>(a, b:c, release)\<close> have the same key. A release classified as the first is dispatched
  and recorded; a later release classified as the second, a different event, is then
  answered \<open>already_processed\<close>.
\<close>

theorem event_key_collision:
  "generateEventKey ''a:b'' ''c'' ''release'' = generateEventKey ''a'' ''b:c'' ''release'' \<and>
   (''a:b'', ''c'', ''release'') \<noteq> (''a'', ''b:c'', ''release'') \<and>
   fst (ChangelogAgent
          (production_env\<lparr>generateObject :=
             \<lambda>text. Inr (sdk_js_release\<lparr>repositoryName := ''a:b'', version := ''c''\<rparr>)\<rparr>)
          signed_request Map.empty) =
     Inr [(''status'', ''success''), (''repository'', ''a:b''), (''eventType'', ''release''),
          (''version'', ''c''), (''devinSessionId'', ''devin-42'')] \<and>
   fst (ChangelogAgent
          (production_env\<lparr>generateObject :=
             \<lambda>text. Inr (sdk_js_release\<lparr>repositoryName := ''a'', version := ''b:c''\<rparr>)\<rparr>)
          signed_request
          (fst (snd (ChangelogAgent
             (production_env\<lparr>generateObject :=
                \<lambda>text. Inr (sdk_js_release\<lparr>repositoryName := ''a:b'', version := ''c''\<rparr>)\<rparr>)
             signed_request Map.empty)))) =
     Inr [(''status'', ''already_processed''), (''repository'', ''a''), (''eventType'', ''release''),
          (''version'', ''b:c''), (''message'', ''This event has already been processed'')]"
  by (simp add: pipeline_defs example_defs)

section \<open>The handler always answers\<close>

text \<open>
  C6. Whatever the request, the environment and the store, the handler returns a response
  and throws nothing, and the \<open>status\<close> field of the response is one of \<open>success\<close>,
  \<open>ignored\<close>, \<open>already_processed\<close> and \<open>error\<close>.
\<close>

theorem handler_always_answers:
  "\<exists>r st' tr. ChangelogAgent e req st = (Inr r, st', tr) \<and>
     map_of r ''status'' \<in>
       {Some ''success'', Some ''ignored'', Some ''already_processed'', Some ''error''}"
proof (cases "ChangelogAgent_try e req st")
  case (fields x st' tr)
  show ?thesis
  proof (cases x)
    case (Inl err)
    with fields show ?thesis by (simp add: ChangelogAgent_def)
  next
    case (Inr r)
    with fields have "fst (ChangelogAgent_try e req st) = Inr r" by simp
    from try_status [OF this] fields Inr show ?thesis by (simp add: ChangelogAgent_def)
  qed
qed

section \<open>The signature gate\<close>

text \<open>
  C3, as stated, fails: with \<open>AGENTUITY_ENVIRONMENT\<close> set to \<open>development\<close> the
  handler skips the verification, so a request with no signature header is classified
  (and here dispatched).
\<close>

theorem development_bypass_counterexample:
  "signature_header (signed_request\<lparr>req_headers := None\<rparr>) = None \<and>
   ChangelogAgent (production_env\<lparr>AGENTUITY_ENVIRONMENT := Some ''development''\<rparr>)
     (signed_request\<lparr>req_headers := None\<rparr>) Map.empty =
     (Inr [(''status'', ''success''), (''repository'', ''sdk-js''), (''eventType'', ''release''),
           (''version'', ''v1.4.0''), (''devinSessionId'', ''devin-42'')],
      [(''agent-changelog-processed-events'', ''changelog-event:sdk-js:v1.4.0:release'') \<mapsto>
         [(''repository'', ''sdk-js''), (''version'', ''v1.4.0''), (''eventType'', ''release''),
          (''processedAt'', ''2025-05-01T12:00:00.000Z''), (''devinSessionId'', ''devin-42'')]],
      [Log Info ''Received webhook request'',
       Log Info ''Running in local development mode - skipping webhook signature verification'',
       ClassifierCalled, Log Info ''Webhook analysis:'',
       KvGet ''agent-changelog-processed-events'' ''changelog-event:sdk-js:v1.4.0:release'',
       Log Info ''Existing event:'', SynthesizerCalled, Log Info ''Generated Devin prompt'',
       Log Info ''Calling Devin API'', DispatcherCalled, Log Info ''Devin API response:'',
       KvSet ''agent-changelog-processed-events'' ''changelog-event:sdk-js:v1.4.0:release'']) \<and>
   ClassifierCalled \<in>
     set (snd (snd (ChangelogAgent (production_env\<lparr>AGENTUITY_ENVIRONMENT := Some ''development''\<rparr>)
                      (signed_request\<lparr>req_headers := None\<rparr>) Map.empty)))"
  by (simp add: pipeline_defs example_defs)

text \<open>
  C3, amended. Outside development mode, a request whose signature header is absent or
  empty, or whose signature the verification does not accept under the configured secret
  (or for which no secret is configured), is answered \<open>error\<close> with the verifier's
  message; the classifier is not called, nor the store, nor the dispatcher, and the store
  is unchanged.
\<close>

theorem unverified_request_is_rejected:
  assumes production: "AGENTUITY_ENVIRONMENT e \<noteq> Some ''development''"
    and unverified:
      "\<not> truthy (signature_header req) \<or> \<not> truthy (GITHUB_WEBHOOK_SECRET e) \<or>
       (\<exists>s k. signature_header req = Some s \<and> GITHUB_WEBHOOK_SECRET e = Some k \<and>
               verify e k (req_text req) s \<noteq> Inr True)"
  shows "\<exists>m tr. ChangelogAgent e req st = (Inr [(''status'', ''error''), (''message'', m)], st, tr) \<and>
           m \<in> {''Missing X-Hub-Signature-256 header'',
                 ''Server configuration error: webhook secret not configured'',
                 ''Error verifying webhook signature'',
                 ''Invalid webhook signature''} \<and>
           ClassifierCalled \<notin> set tr \<and> DispatcherCalled \<notin> set tr \<and>
           \<not> list_ex is_kv_get tr \<and> \<not> list_ex is_kv_set tr"
proof -
  let ?v = "fst (verifyGitHubWebhook e req)"
  let ?evs = "Log Info ''Received webhook request'' # snd (verifyGitHubWebhook e req)"
  from verification_fails [OF unverified] have
    failed: "\<not> success ?v" and
    msg: "message ?v \<in>
           {Some ''Missing X-Hub-Signature-256 header'',
            Some ''Server configuration error: webhook secret not configured'',
            Some ''Error verifying webhook signature'',
            Some ''Invalid webhook signature''}" by simp_all
  from msg have m: "or_else (message ?v) ''Unknown verification error'' \<in>
           {''Missing X-Hub-Signature-256 header'',
            ''Server configuration error: webhook secret not configured'',
            ''Error verifying webhook signature'',
            ''Invalid webhook signature''}" by auto
  from verify_events [of _ e req] have "\<forall>ev \<in> set ?evs. ev = VerifyCalled \<or> is_log ev"
    by simp
  note quiet = gate_events_quiet [OF this]
  from gate_closed [OF production failed, of st] m quiet show ?thesis by blast
qed

theorem unverified_request_is_rejected_witness:
  "signature_header (signed_request\<lparr>req_headers := Some Map.empty\<rparr>) = None \<and>
   (\<exists>m tr. ChangelogAgent production_env (signed_request\<lparr>req_headers := Some Map.empty\<rparr>) Map.empty =
             (Inr [(''status'', ''error''), (''message'', m)], Map.empty, tr) \<and>
           m \<in> {''Missing X-Hub-Signature-256 header'',
                 ''Server configuration error: webhook secret not configured'',
                 ''Error verifying webhook signature'',
                 ''Invalid webhook signature''} \<and>
           ClassifierCalled \<notin> set tr \<and> DispatcherCalled \<notin> set tr \<and>
           \<not> list_ex is_kv_get tr \<and> \<not> list_ex is_kv_set tr) \<and>
   verify production_env ''s3cret''
     (req_text (signed_request\<lparr>req_headers := Some [''x-hub-signature-256'' \<mapsto> ''sha256=0000'']\<rparr>))
     ''sha256=0000'' = Inr False \<and>
   (\<exists>m tr. ChangelogAgent production_env
             (signed_request\<lparr>req_headers := Some [''x-hub-signature-256'' \<mapsto> ''sha256=0000'']\<rparr>)
             Map.empty =
             (Inr [(''status'', ''error''), (''message'', m)], Map.empty, tr) \<and>
           m \<in> {''Missing X-Hub-Signature-256 header'',
                 ''Server configuration error: webhook secret not configured'',
                 ''Error verifying webhook signature'',
                 ''Invalid webhook signature''} \<and>
           ClassifierCalled \<notin> set tr \<and> DispatcherCalled \<notin> set tr \<and>
           \<not> list_ex is_kv_get tr \<and> \<not> list_ex is_kv_set tr)"
proof -
  let ?absent = "signed_request\<lparr>req_headers := Some Map.empty\<rparr>"
  let ?tampered = "signed_request\<lparr>req_headers := Some [''x-hub-signature-256'' \<mapsto> ''sha256=0000'']\<rparr>"
  have production: "AGENTUITY_ENVIRONMENT production_env \<noteq> Some ''development''"
    by (simp add: production_env_def)
  have absent: "signature_header ?absent = None"
    by (simp add: signature_header_def)
  then have unverified_absent:
    "\<not> truthy (signature_header ?absent) \<or> \<not> truthy (GITHUB_WEBHOOK_SECRET production_env) \<or>
     (\<exists>s k. signature_header ?absent = Some s \<and> GITHUB_WEBHOOK_SECRET production_env = Some k \<and>
             verify production_env k (req_text ?absent) s \<noteq> Inr True)"
    by simp
  have tampered: "verify production_env ''s3cret'' (req_text ?tampered) ''sha256=0000'' = Inr False"
    by (simp add: production_env_def)
  have "signature_header ?tampered = Some ''sha256=0000''"
    and "GITHUB_WEBHOOK_SECRET production_env = Some ''s3cret''"
    by (simp_all add: signature_header_def production_env_def)
  with tampered have unverified_tampered:
    "\<not> truthy (signature_header ?tampered) \<or> \<not> truthy (GITHUB_WEBHOOK_SECRET production_env) \<or>
     (\<exists>s k. signature_header ?tampered = Some s \<and> GITHUB_WEBHOOK_SECRET production_env = Some k \<and>
             verify production_env k (req_text ?tampered) s \<noteq> Inr True)"
    by simp
  from unverified_request_is_rejected [OF production unverified_absent, of Map.empty]
    unverified_request_is_rejected [OF production unverified_tampered, of Map.empty]
    absent tampered
  show ?thesis by blast
qed

section \<open>Short-circuits after classification\<close>

text \<open>
  C7. When the request passes the signature gate and the classifier returns an analysis
  with \<open>isReleaseOrTagEvent\<close> false or \<open>isSupported\<close> false, the response is \<open>ignored\<close>
  with the classifier's reasoning, and the run performs no store lookup (nor a store
  write, nor a dispatch).
\<close>

theorem inactionable_event_is_ignored_before_lookup:
  assumes gate: "AGENTUITY_ENVIRONMENT e = Some ''development'' \<or>
                 success (fst (verifyGitHubWebhook e req))"
    and body: "req_object req = Inr body"
    and classified: "generateObject e (req_text req) = Inr a"
    and inactionable: "\<not> isReleaseOrTagEvent a \<or> \<not> isSupported a"
  shows "\<exists>tr. ChangelogAgent e req st =
                 (Inr [(''status'', ''ignored''), (''reason'', reasoning a)], st, tr) \<and>
               \<not> list_ex is_kv_get tr \<and> \<not> list_ex is_kv_set tr \<and> DispatcherCalled \<notin> set tr"
proof -
  from gate_open [OF gate] obtain evs where
    run: "ChangelogAgent_try e req st = emit evs (analyse_and_process e req st)" and
    evs: "\<forall>ev \<in> set evs. ev = VerifyCalled \<or> is_log ev" by blast
  from run have "ChangelogAgent e req st =
      (Inr [(''status'', ''ignored''), (''reason'', reasoning a)], st,
       evs @ [ClassifierCalled, Log Info ''Webhook analysis:''])"
    by (simp add: analyse_ignored [OF body classified inactionable] handler_emit)
  with gate_events_quiet [OF evs] show ?thesis by simp
qed

theorem inactionable_event_is_ignored_before_lookup_witness:
  "success (fst (verifyGitHubWebhook
                   (production_env\<lparr>generateObject := \<lambda>text. Inr website_release\<rparr>) signed_request)) \<and>
   \<not> isSupported website_release \<and>
   (\<exists>tr. ChangelogAgent (production_env\<lparr>generateObject := \<lambda>text. Inr website_release\<rparr>)
            signed_request Map.empty =
            (Inr [(''status'', ''ignored''), (''reason'', ''repository is not in the catalog'')],
             Map.empty, tr) \<and>
          \<not> list_ex is_kv_get tr \<and> \<not> list_ex is_kv_set tr \<and> DispatcherCalled \<notin> set tr)"
proof -
  let ?e = "production_env\<lparr>generateObject := \<lambda>text. Inr website_release\<rparr>"
  have gate: "AGENTUITY_ENVIRONMENT ?e = Some ''development'' \<or>
              success (fst (verifyGitHubWebhook ?e signed_request))"
    by (simp add: pipeline_defs example_defs)
  have body: "req_object signed_request = Inr \<lparr>payload = Some \<lparr>action = Some ''published''\<rparr>\<rparr>"
    by (simp add: signed_request_def)
  have classified: "generateObject ?e (req_text signed_request) = Inr website_release"
    by simp
  have inactionable: "\<not> isReleaseOrTagEvent website_release \<or> \<not> isSupported website_release"
    by (simp add: website_release_def)
  from inactionable_event_is_ignored_before_lookup
         [OF gate body classified inactionable, of Map.empty] gate
  show ?thesis by (simp add: website_release_def production_env_def)
qed

text \<open>
  C2. When the event is classified as actionable and supported and the store lookup
  reports that its key exists, the response is \<open>already_processed\<close>, the dispatcher is not
  called, the store is not written and stays as it was. Hence, when a delivery is answered
  \<open>success\<close>, a second delivery of the same request in the same environment, on the store
  the first one left, is answered \<open>already_processed\<close>, and the two runs together call
  the dispatcher exactly once.
\<close>

theorem recorded_event_is_not_dispatched_again:
  "(((AGENTUITY_ENVIRONMENT e = Some ''development'' \<or> success (fst (verifyGitHubWebhook e req))) \<and>
     req_object req = Inr body \<and> generateObject e (req_text req) = Inr a \<and>
     isReleaseOrTagEvent a \<and> isSupported a \<and>
     kv_get e st processed_events
       (generateEventKey (repositoryName a) (version a) (event_type_str (eventType a))) = Inr True)
    \<longrightarrow>
    (\<exists>tr. ChangelogAgent e req st =
             (Inr [(''status'', ''already_processed''),
                   (''repository'', repositoryName a),
                   (''eventType'', event_type_str (eventType a)),
                   (''version'', version a),
                   (''message'', ''This event has already been processed'')],
              st, tr) \<and>
           DispatcherCalled \<notin> set tr \<and> \<not> list_ex is_kv_set tr)) \<and>
   ((ChangelogAgent e req st = (Inr r1, st1, tr1) \<and> map_of r1 ''status'' = Some ''success'')
    \<longrightarrow>
    (\<exists>r2 tr2. ChangelogAgent e req st1 = (Inr r2, st1, tr2) \<and>
               map_of r2 ''status'' = Some ''already_processed'' \<and>
               count_list (tr1 @ tr2) DispatcherCalled = 1))"
proof (intro conjI impI)
  assume "(AGENTUITY_ENVIRONMENT e = Some ''development'' \<or> success (fst (verifyGitHubWebhook e req))) \<and>
     req_object req = Inr body \<and> generateObject e (req_text req) = Inr a \<and>
     isReleaseOrTagEvent a \<and> isSupported a \<and>
     kv_get e st processed_events
       (generateEventKey (repositoryName a) (version a) (event_type_str (eventType a))) = Inr True"
  then show "\<exists>tr. ChangelogAgent e req st =
             (Inr [(''status'', ''already_processed''),
                   (''repository'', repositoryName a),
                   (''eventType'', event_type_str (eventType a)),
                   (''version'', version a),
                   (''message'', ''This event has already been processed'')],
              st, tr) \<and>
           DispatcherCalled \<notin> set tr \<and> \<not> list_ex is_kv_set tr"
    using already_processed_run [of e req body a st] by blast
next
  assume first: "ChangelogAgent e req st = (Inr r1, st1, tr1) \<and> map_of r1 ''status'' = Some ''success''"
  from handler_success_inv [of e req st r1 st1 tr1] first obtain body' a' where
    gate: "AGENTUITY_ENVIRONMENT e = Some ''development'' \<or> success (fst (verifyGitHubWebhook e req))" and
    body: "req_object req = Inr body'" and
    classified: "generateObject e (req_text req) = Inr a'" and
    actionable: "isReleaseOrTagEvent a'" "isSupported a'" and
    get: "kv_get_fault e = None" and
    recorded: "st1 (processed_events,
                generateEventKey (repositoryName a') (version a') (event_type_str (eventType a'))) \<noteq> None" and
    once: "count_list tr1 DispatcherCalled = 1"
    by blast
  from get recorded have existing: "kv_get e st1 processed_events
      (generateEventKey (repositoryName a') (version a') (event_type_str (eventType a'))) = Inr True"
    by (simp add: kv_get_def)
  from already_processed_run [OF gate body classified actionable existing] obtain tr2 where
    second: "ChangelogAgent e req st1 =
             (Inr [(''status'', ''already_processed''),
                   (''repository'', repositoryName a'),
                   (''eventType'', event_type_str (eventType a')),
                   (''version'', version a'),
                   (''message'', ''This event has already been processed'')],
              st1, tr2)" and
    quiet: "DispatcherCalled \<notin> set tr2" by blast
  from quiet have "count_list tr2 DispatcherCalled = 0" by (simp add: count_list_0_iff)
  with once have "count_list (tr1 @ tr2) DispatcherCalled = 1" by simp
  with second show "\<exists>r2 tr2. ChangelogAgent e req st1 = (Inr r2, st1, tr2) \<and>
               map_of r2 ''status'' = Some ''already_processed'' \<and>
               count_list (tr1 @ tr2) DispatcherCalled = 1"
    by simp
qed

theorem recorded_event_is_not_dispatched_again_witness:
  "(\<exists>tr. ChangelogAgent production_env signed_request
            [(processed_events, ''changelog-event:sdk-js:v1.4.0:release'') \<mapsto>
               [(''repository'', ''sdk-js''), (''version'', ''v1.4.0''),
                (''eventType'', ''release''), (''processedAt'', ''2025-04-30T08:00:00.000Z''),
                (''devinSessionId'', ''devin-41'')]] =
            (Inr [(''status'', ''already_processed''), (''repository'', ''sdk-js''),
                  (''eventType'', ''release''), (''version'', ''v1.4.0''),
                  (''message'', ''This event has already been processed'')],
             [(processed_events, ''changelog-event:sdk-js:v1.4.0:release'') \<mapsto>
               [(''repository'', ''sdk-js''), (''version'', ''v1.4.0''),
                (''eventType'', ''release''), (''processedAt'', ''2025-04-30T08:00:00.000Z''),
                (''devinSessionId'', ''devin-41'')]], tr) \<and>
          DispatcherCalled \<notin> set tr \<and> \<not> list_ex is_kv_set tr) \<and>
   (\<exists>r1 st1 tr1.
      ChangelogAgent production_env signed_request Map.empty = (Inr r1, st1, tr1) \<and>
      map_of r1 ''status'' = Some ''success'' \<and>
      (\<exists>r2 tr2. ChangelogAgent production_env signed_request st1 = (Inr r2, st1, tr2) \<and>
                 map_of r2 ''status'' = Some ''already_processed'' \<and>
                 count_list (tr1 @ tr2) DispatcherCalled = 1))"
proof -
  let ?st = "[(processed_events, ''changelog-event:sdk-js:v1.4.0:release'') \<mapsto>
               [(''repository'', ''sdk-js''), (''version'', ''v1.4.0''),
                (''eventType'', ''release''), (''processedAt'', ''2025-04-30T08:00:00.000Z''),
                (''devinSessionId'', ''devin-41'')]]"
  have gate: "AGENTUITY_ENVIRONMENT production_env = Some ''development'' \<or>
              success (fst (verifyGitHubWebhook production_env signed_request))"
    by (simp add: pipeline_defs example_defs)
  have body: "req_object signed_request = Inr \<lparr>payload = Some \<lparr>action = Some ''published''\<rparr>\<rparr>"
    by (simp add: signed_request_def)
  have classified: "generateObject production_env (req_text signed_request) = Inr sdk_js_release"
    by (simp add: production_env_def)
  have actionable: "isReleaseOrTagEvent sdk_js_release" "isSupported sdk_js_release"
    by (simp_all add: sdk_js_release_def)
  have existing: "kv_get production_env ?st processed_events
                    (generateEventKey (repositoryName sdk_js_release) (version sdk_js_release)
                       (event_type_str (eventType sdk_js_release))) = Inr True"
    by (simp add: kv_get_def production_env_def sdk_js_release_def generateEventKey_def)
  obtain r1 st1 tr1 where
    first: "ChangelogAgent production_env signed_request Map.empty = (Inr r1, st1, tr1)" and
    ok: "map_of r1 ''status'' = Some ''success''"
    by (simp add: pipeline_defs example_defs)
  note dedup = recorded_event_is_not_dispatched_again
    [of production_env signed_request "\<lparr>payload = Some \<lparr>action = Some ''published''\<rparr>\<rparr>"
        sdk_js_release]
  from dedup [of ?st, THEN conjunct1] gate body classified actionable existing
  have "\<exists>tr. ChangelogAgent production_env signed_request ?st =
             (Inr [(''status'', ''already_processed''),
                   (''repository'', repositoryName sdk_js_release),
                   (''eventType'', event_type_str (eventType sdk_js_release)),
                   (''version'', version sdk_js_release),
                   (''message'', ''This event has already been processed'')],
              ?st, tr) \<and>
           DispatcherCalled \<notin> set tr \<and> \<not> list_ex is_kv_set tr"
    by blast
  then have a: "\<exists>tr. ChangelogAgent production_env signed_request ?st =
            (Inr [(''status'', ''already_processed''), (''repository'', ''sdk-js''),
                  (''eventType'', ''release''), (''version'', ''v1.4.0''),
                  (''message'', ''This event has already been processed'')],
             ?st, tr) \<and>
          DispatcherCalled \<notin> set tr \<and> \<not> list_ex is_kv_set tr"
    by (simp add: sdk_js_release_def)
  from dedup [of Map.empty r1 st1 tr1, THEN conjunct2] first ok
  have "\<exists>r2 tr2. ChangelogAgent production_env signed_request st1 = (Inr r2, st1, tr2) \<and>
                 map_of r2 ''status'' = Some ''already_processed'' \<and>
                 count_list (tr1 @ tr2) DispatcherCalled = 1"
    by blast
  with first ok a show ?thesis by blast
qed

text \<open>
  C8. When the event is classified as a release, the \<open>action\<close> the handler reads from
  the body is not \<open>published\<close>, and the store lookup reports that the key is not
  recorded, the response is \<open>ignored\<close> and the dispatcher is not called (nor is the store
  written). The reason is the fixed text when the event is actionable and supported, and
  the classifier's reasoning otherwise.
\<close>

theorem unpublished_release_is_ignored:
  assumes gate: "AGENTUITY_ENVIRONMENT e = Some ''development'' \<or>
                 success (fst (verifyGitHubWebhook e req))"
    and body: "req_object req = Inr body"
    and classified: "generateObject e (req_text req) = Inr a"
    and release: "eventType a = Release"
    and unpublished: "(case payload body of None \<Rightarrow> None | Some p \<Rightarrow> action p) \<noteq> Some ''published''"
    and fresh: "kv_get e st processed_events
                  (generateEventKey (repositoryName a) (version a) (event_type_str (eventType a))) =
                Inr False"
  shows "\<exists>tr. ChangelogAgent e req st =
                 (Inr [(''status'', ''ignored''),
                       (''reason'',
                        if isReleaseOrTagEvent a \<and> isSupported a
                        then ''Only published releases are processed'' else reasoning a)],
                  st, tr) \<and>
               DispatcherCalled \<notin> set tr \<and> \<not> list_ex is_kv_set tr"
proof -
  let ?k = "generateEventKey (repositoryName a) (version a) (event_type_str (eventType a))"
  from gate_open [OF gate] obtain evs where
    run: "ChangelogAgent_try e req st = emit evs (analyse_and_process e req st)" and
    evs: "\<forall>ev \<in> set evs. ev = VerifyCalled \<or> is_log ev" by blast
  show ?thesis
  proof (cases "isReleaseOrTagEvent a \<and> isSupported a")
    case True
    then have actionable: "isReleaseOrTagEvent a" "isSupported a" by simp_all
    from run have "ChangelogAgent_try e req st =
        emit (evs @ [ClassifierCalled, Log Info ''Webhook analysis:''])
          (Inr [(''status'', ''ignored''), (''reason'', ''Only published releases are processed'')],
           st,
           [KvGet processed_events ?k, Log Info ''Existing event:'',
            Log Info ''Ignoring non-published release event:''])"
      by (simp add: analyse_actionable [OF body classified actionable]
          dedup_unpublished [OF fresh release unpublished])
    from handler_emit [OF this] True gate_events_quiet [OF evs] show ?thesis by simp
  next
    case False
    then have inactionable: "\<not> isReleaseOrTagEvent a \<or> \<not> isSupported a" by simp
    from run have "ChangelogAgent_try e req st =
        emit evs (Inr [(''status'', ''ignored''), (''reason'', reasoning a)], st,
                  [ClassifierCalled, Log Info ''Webhook analysis:''])"
      by (simp add: analyse_ignored [OF body classified inactionable])
    from handler_emit [OF this] False gate_events_quiet [OF evs] show ?thesis by auto
  qed
qed

theorem unpublished_release_is_ignored_witness:
  "eventType sdk_js_release = Release \<and>
   (\<exists>tr. ChangelogAgent production_env
            (signed_request\<lparr>req_object := Inr \<lparr>payload = Some \<lparr>action = Some ''created''\<rparr>\<rparr>\<rparr>)
            Map.empty =
            (Inr [(''status'', ''ignored''), (''reason'', ''Only published releases are processed'')],
             Map.empty, tr) \<and>
          DispatcherCalled \<notin> set tr \<and> \<not> list_ex is_kv_set tr)"
proof -
  let ?req = "signed_request\<lparr>req_object := Inr \<lparr>payload = Some \<lparr>action = Some ''created''\<rparr>\<rparr>\<rparr>"
  have gate: "AGENTUITY_ENVIRONMENT production_env = Some ''development'' \<or>
              success (fst (verifyGitHubWebhook production_env ?req))"
    by (simp add: pipeline_defs example_defs)
  have body: "req_object ?req = Inr \<lparr>payload = Some \<lparr>action = Some ''created''\<rparr>\<rparr>"
    by simp
  have classified: "generateObject production_env (req_text ?req) = Inr sdk_js_release"
    by (simp add: production_env_def)
  have release: "eventType sdk_js_release = Release"
    by (simp add: sdk_js_release_def)
  have unpublished: "(case payload \<lparr>payload = Some \<lparr>action = Some ''created''\<rparr>\<rparr> of
                        None \<Rightarrow> None | Some p \<Rightarrow> action p) \<noteq> Some ''published''"
    by simp
  have fresh: "kv_get production_env Map.empty processed_events
                 (generateEventKey (repositoryName sdk_js_release) (version sdk_js_release)
                    (event_type_str (eventType sdk_js_release))) = Inr False"
    by (simp add: kv_get_def production_env_def)
  from unpublished_release_is_ignored [OF gate body classified release unpublished fresh] release
  show ?thesis by (simp add: sdk_js_release_def)
qed

section \<open>Dispatch and the store write\<close>

text \<open>
  C4. When the run reaches the dispatcher and the endpoint answers with a response that is
  not \<open>ok\<close>, \<open>callDevinAPI\<close> throws an error whose message carries the status code and
  the response body; the handler answers \<open>error\<close> with that message, the store is
  unchanged and no store write is attempted.
\<close>

theorem failed_dispatch_writes_no_record:
  assumes gate: "AGENTUITY_ENVIRONMENT e = Some ''development'' \<or>
                 success (fst (verifyGitHubWebhook e req))"
    and body: "req_object req = Inr body"
    and classified: "generateObject e (req_text req) = Inr a"
    and actionable: "isReleaseOrTagEvent a" "isSupported a"
    and fresh: "kv_get e st processed_events
                  (generateEventKey (repositoryName a) (version a) (event_type_str (eventType a))) =
                Inr False"
    and published: "eventType a = Release \<longrightarrow>
                    (case payload body of None \<Rightarrow> None | Some p \<Rightarrow> action p) = Some ''published''"
    and prompt: "generateText e (repositoryName a, event_type_str (eventType a),
                   or_else (Some (version a)) ''unknown - figure it out'', req_text req) = Inr p"
    and response: "fetch e p = Inr response" "\<not> ok response" "body_text response = Inr b"
  shows "fst (callDevinAPI e p) =
           Inl (Error (''Failed to call Devin API: Devin API returned '' @
                       show_nat (status response) @ '': '' @ b)) \<and>
         (\<exists>tr. ChangelogAgent e req st =
                  (Inr [(''status'', ''error''),
                        (''message'', ''Failed to call Devin API: Devin API returned '' @
                                      show_nat (status response) @ '': '' @ b)],
                   st, tr) \<and>
                DispatcherCalled \<in> set tr \<and> \<not> list_ex is_kv_set tr)"
proof -
  note failed = callDevinAPI_not_ok [OF response]
  from reaches_dispatch [OF gate body classified actionable fresh published, of ]
  obtain evs where
    run: "ChangelogAgent_try e req st =
            emit evs (synthesize_and_dispatch e req a
              (generateEventKey (repositoryName a) (version a) (event_type_str (eventType a))) st)" and
    evs: "\<not> list_ex is_kv_set evs" by blast
  from run have "ChangelogAgent_try e req st =
      emit evs (Inl (Error (''Failed to call Devin API: Devin API returned '' @
                       show_nat (status response) @ '': '' @ b)), st,
                [SynthesizerCalled, Log Info ''Generated Devin prompt'',
                 Log Info ''Calling Devin API'', DispatcherCalled,
                 Log Err ''Error calling Devin API: %o''])"
    by (simp add: synth_dispatch_failed [OF prompt failed])
  from handler_emit_error [OF this] evs failed show ?thesis by simp
qed

theorem failed_dispatch_writes_no_record_witness:
  "fst (callDevinAPI
          (production_env\<lparr>fetch := \<lambda>prompt. Inr \<lparr>ok = False, status = 500,
             body_text = Inr ''Internal Server Error'', body_json = Inl (Error ''Unexpected token'')\<rparr>\<rparr>)
          ''Update the changelog of sdk-js for v1.4.0'') =
     Inl (Error ''Failed to call Devin API: Devin API returned 500: Internal Server Error'') \<and>
   (\<exists>tr. ChangelogAgent
            (production_env\<lparr>fetch := \<lambda>prompt. Inr \<lparr>ok = False, status = 500,
               body_text = Inr ''Internal Server Error'', body_json = Inl (Error ''Unexpected token'')\<rparr>\<rparr>)
            signed_request Map.empty =
            (Inr [(''status'', ''error''),
                  (''message'',
                   ''Failed to call Devin API: Devin API returned 500: Internal Server Error'')],
             Map.empty, tr) \<and>
          DispatcherCalled \<in> set tr \<and> \<not> list_ex is_kv_set tr)"
proof -
  let ?resp = "\<lparr>ok = False, status = 500, body_text = Inr ''Internal Server Error'',
                body_json = Inl (Error ''Unexpected token'')\<rparr>"
  let ?e = "production_env\<lparr>fetch := \<lambda>prompt. Inr ?resp\<rparr>"
  let ?p = "''Update the changelog of sdk-js for v1.4.0''"
  have gate: "AGENTUITY_ENVIRONMENT ?e = Some ''development'' \<or>
              success (fst (verifyGitHubWebhook ?e signed_request))"
    by (simp add: pipeline_defs example_defs)
  have body: "req_object signed_request = Inr \<lparr>payload = Some \<lparr>action = Some ''published''\<rparr>\<rparr>"
    by (simp add: signed_request_def)
  have classified: "generateObject ?e (req_text signed_request) = Inr sdk_js_release"
    by (simp add: production_env_def)
  have actionable: "isReleaseOrTagEvent sdk_js_release" "isSupported sdk_js_release"
    by (simp_all add: sdk_js_release_def)
  have fresh: "kv_get ?e Map.empty processed_events
                 (generateEventKey (repositoryName sdk_js_release) (version sdk_js_release)
                    (event_type_str (eventType sdk_js_release))) = Inr False"
    by (simp add: kv_get_def production_env_def)
  have published: "eventType sdk_js_release = Release \<longrightarrow>
      (case payload \<lparr>payload = Some \<lparr>action = Some ''published''\<rparr>\<rparr> of
         None \<Rightarrow> None | Some p \<Rightarrow> action p) = Some ''published''"
    by simp
  have prompt: "generateText ?e (repositoryName sdk_js_release,
        event_type_str (eventType sdk_js_release),
        or_else (Some (version sdk_js_release)) ''unknown - figure it out'',
        req_text signed_request) = Inr ?p"
    by (simp add: production_env_def)
  have response: "fetch ?e ?p = Inr ?resp" "\<not> ok ?resp" "body_text ?resp = Inr ''Internal Server Error''"
    by simp_all
  from failed_dispatch_writes_no_record
         [OF gate body classified actionable fresh published prompt response]
  show ?thesis by (simp add: show_nat_500)
qed

text \<open>
  C9, as stated, fails. The endpoint answers \<open>ok\<close> with a JSON object that has no session
  identifier, and \<open>callDevinAPI\<close> returns the sentinel; the store write that follows
  throws, and the handler answers \<open>error\<close>, not \<open>success\<close>. Also, when the JSON body is
  \<open>null\<close>, which has no session identifier either, reading \<open>data.sessionId\<close> throws:
  \<open>callDevinAPI\<close> fails and the handler answers \<open>error\<close>.
\<close>

theorem missing_session_id_counterexample:
  "callDevinAPI
     (production_env\<lparr>fetch := \<lambda>prompt. Inr \<lparr>ok = True, status = 200, body_text = Inr ''{}'',
                          body_json = Inr (JsonObject \<lparr>sessionId = None\<rparr>)\<rparr>,
                      kv_set_fault := Some (Error ''write timed out'')\<rparr>)
     ''Update the changelog of sdk-js for v1.4.0'' =
     (Inr \<lparr>result_sessionId = ''unknown'', result_status = 200\<rparr>,
      [Log Info ''Calling Devin API'', DispatcherCalled, Log Info ''Devin API response:'']) \<and>
   ChangelogAgent
     (production_env\<lparr>fetch := \<lambda>prompt. Inr \<lparr>ok = True, status = 200, body_text = Inr ''{}'',
                          body_json = Inr (JsonObject \<lparr>sessionId = None\<rparr>)\<rparr>,
                      kv_set_fault := Some (Error ''write timed out'')\<rparr>)
     signed_request Map.empty =
     (Inr [(''status'', ''error''), (''message'', ''write timed out'')], Map.empty,
      [Log Info ''Received webhook request'', VerifyCalled,
       Log Info ''Webhook signature verified successfully'', ClassifierCalled,
       Log Info ''Webhook analysis:'',
       KvGet ''agent-changelog-processed-events'' ''changelog-event:sdk-js:v1.4.0:release'',
       Log Info ''Existing event:'', SynthesizerCalled, Log Info ''Generated Devin prompt'',
       Log Info ''Calling Devin API'', DispatcherCalled, Log Info ''Devin API response:'',
       KvSet ''agent-changelog-processed-events'' ''changelog-event:sdk-js:v1.4.0:release'',
       Log Err ''Error processing webhook: %o'']) \<and>
   callDevinAPI
     (production_env\<lparr>fetch := \<lambda>prompt. Inr \<lparr>ok = True, status = 200, body_text = Inr ''null'',
                          body_json = Inr JsonNull\<rparr>\<rparr>)
     ''Update the changelog of sdk-js for v1.4.0'' =
     (Inl (Error ''Failed to call Devin API: Cannot read properties of null (reading 'sessionId')''),
      [Log Info ''Calling Devin API'', DispatcherCalled, Log Err ''Error calling Devin API: %o'']) \<and>
   fst (ChangelogAgent
          (production_env\<lparr>fetch := \<lambda>prompt. Inr \<lparr>ok = True, status = 200, body_text = Inr ''null'',
                               body_json = Inr JsonNull\<rparr>\<rparr>)
          signed_request Map.empty) =
     Inr [(''status'', ''error''),
          (''message'',
           ''Failed to call Devin API: Cannot read properties of null (reading 'sessionId')'')]"
  by (simp add: pipeline_defs example_defs)

text \<open>
  C9, amended. When the endpoint answers \<open>ok\<close> with a JSON body other than \<open>null\<close> that
  has no session identifier (or an empty one), \<open>callDevinAPI\<close> returns the session
  identifier \<open>unknown\<close> with the status code of the response, rather than failing; when the
  store write that follows succeeds, the handler answers \<open>success\<close> with \<open>devinSessionId\<close>
  \<open>unknown\<close>, and the record it stores carries the same sentinel.
\<close>

theorem missing_session_id_becomes_unknown:
  assumes gate: "AGENTUITY_ENVIRONMENT e = Some ''development'' \<or>
                 success (fst (verifyGitHubWebhook e req))"
    and body: "req_object req = Inr body"
    and classified: "generateObject e (req_text req) = Inr a"
    and actionable: "isReleaseOrTagEvent a" "isSupported a"
    and fresh: "kv_get e st processed_events
                  (generateEventKey (repositoryName a) (version a) (event_type_str (eventType a))) =
                Inr False"
    and published: "eventType a = Release \<longrightarrow>
                    (case payload body of None \<Rightarrow> None | Some p \<Rightarrow> action p) = Some ''published''"
    and prompt: "generateText e (repositoryName a, event_type_str (eventType a),
                   or_else (Some (version a)) ''unknown - figure it out'', req_text req) = Inr p"
    and response: "fetch e p = Inr response" "ok response" "body_json response = Inr data"
    and not_null: "data \<noteq> JsonNull"
    and no_handle: "\<forall>d. data = JsonObject d \<longrightarrow> \<not> truthy (sessionId d)"
  shows "fst (callDevinAPI e p) =
           Inr \<lparr>result_sessionId = ''unknown'', result_status = status response\<rparr> \<and>
         (kv_set_fault e = None \<longrightarrow>
            (\<exists>tr. ChangelogAgent e req st =
               (Inr [(''status'', ''success''),
                     (''repository'', repositoryName a),
                     (''eventType'', event_type_str (eventType a)),
                     (''version'', version a),
                     (''devinSessionId'', ''unknown'')],
                st((processed_events,
                    generateEventKey (repositoryName a) (version a) (event_type_str (eventType a))) \<mapsto>
                     [(''repository'', repositoryName a),
                      (''version'', version a),
                      (''eventType'', event_type_str (eventType a)),
                      (''processedAt'', now e),
                      (''devinSessionId'', ''unknown'')]),
                tr)))"
proof -
  let ?k = "generateEventKey (repositoryName a) (version a) (event_type_str (eventType a))"
  let ?r = "[(''status'', ''success''),
             (''repository'', repositoryName a),
             (''eventType'', event_type_str (eventType a)),
             (''version'', version a),
             (''devinSessionId'', ''unknown'')]"
  let ?st = "st((processed_events, ?k) \<mapsto>
                 [(''repository'', repositoryName a),
                  (''version'', version a),
                  (''eventType'', event_type_str (eventType a)),
                  (''processedAt'', now e),
                  (''devinSessionId'', ''unknown'')])"
  from not_null no_handle obtain sid where
    sid: "read_sessionId e data = Inr sid" "\<not> truthy sid"
    by (cases data) auto
  note sent = callDevinAPI_no_handle [OF response sid]
  from reaches_dispatch [OF gate body classified actionable fresh published]
  obtain evs where
    run: "ChangelogAgent_try e req st = emit evs (synthesize_and_dispatch e req a ?k st)"
    by blast
  have "\<exists>tr. ChangelogAgent e req st = (Inr ?r, ?st, tr)" if stored: "kv_set_fault e = None"
  proof -
    from run have "ChangelogAgent_try e req st =
        emit evs (Inr ?r, ?st,
            [SynthesizerCalled, Log Info ''Generated Devin prompt'',
             Log Info ''Calling Devin API'', DispatcherCalled, Log Info ''Devin API response:'',
             KvSet processed_events ?k])"
      by (simp add: synth_recorded [OF prompt sent stored])
    from handler_emit [OF this] show ?thesis by simp
  qed
  with sent show ?thesis by simp
qed

theorem missing_session_id_becomes_unknown_witness:
  "fst (callDevinAPI
          (production_env\<lparr>fetch := \<lambda>prompt. Inr \<lparr>ok = True, status = 201,
             body_text = Inr ''{}'', body_json = Inr (JsonObject \<lparr>sessionId = None\<rparr>)\<rparr>\<rparr>)
          ''Update the changelog of sdk-js for v1.4.0'') =
     Inr \<lparr>result_sessionId = ''unknown'', result_status = 201\<rparr> \<and>
   (\<exists>tr. ChangelogAgent
            (production_env\<lparr>fetch := \<lambda>prompt. Inr \<lparr>ok = True, status = 201,
               body_text = Inr ''{}'', body_json = Inr (JsonObject \<lparr>sessionId = None\<rparr>)\<rparr>\<rparr>)
            signed_request Map.empty =
            (Inr [(''status'', ''success''), (''repository'', ''sdk-js''),
                  (''eventType'', ''release''), (''version'', ''v1.4.0''),
                  (''devinSessionId'', ''unknown'')],
             [(processed_events, ''changelog-event:sdk-js:v1.4.0:release'') \<mapsto>
                [(''repository'', ''sdk-js''), (''version'', ''v1.4.0''),
                 (''eventType'', ''release''), (''processedAt'', ''2025-05-01T12:00:00.000Z''),
                 (''devinSessionId'', ''unknown'')]],
             tr))"
proof -
  let ?resp = "\<lparr>ok = True, status = 201, body_text = Inr ''{}'',
                body_json = Inr (JsonObject \<lparr>sessionId = None\<rparr>)\<rparr>"
  let ?e = "production_env\<lparr>fetch := \<lambda>prompt. Inr ?resp\<rparr>"
  let ?p = "''Update the changelog of sdk-js for v1.4.0''"
  have gate: "AGENTUITY_ENVIRONMENT ?e = Some ''development'' \<or>
              success (fst (verifyGitHubWebhook ?e signed_request))"
    by (simp add: pipeline_defs example_defs)
  have body: "req_object signed_request = Inr \<lparr>payload = Some \<lparr>action = Some ''published''\<rparr>\<rparr>"
    by (simp add: signed_request_def)
  have classified: "generateObject ?e (req_text signed_request) = Inr sdk_js_release"
    by (simp add: production_env_def)
  have actionable: "isReleaseOrTagEvent sdk_js_release" "isSupported sdk_js_release"
    by (simp_all add: sdk_js_release_def)
  have fresh: "kv_get ?e Map.empty processed_events
                 (generateEventKey (repositoryName sdk_js_release) (version sdk_js_release)
                    (event_type_str (eventType sdk_js_release))) = Inr False"
    by (simp add: kv_get_def production_env_def)
  have published: "eventType sdk_js_release = Release \<longrightarrow>
      (case payload \<lparr>payload = Some \<lparr>action = Some ''published''\<rparr>\<rparr> of
         None \<Rightarrow> None | Some p \<Rightarrow> action p) = Some ''published''"
    by simp
  have prompt: "generateText ?e (repositoryName sdk_js_release,
        event_type_str (eventType sdk_js_release),
        or_else (Some (version sdk_js_release)) ''unknown - figure it out'',
        req_text signed_request) = Inr ?p"
    by (simp add: production_env_def)
  have response: "fetch ?e ?p = Inr ?resp" "ok ?resp"
      "body_json ?resp = Inr (JsonObject \<lparr>sessionId = None\<rparr>)"
    by simp_all
  have not_null: "JsonObject \<lparr>sessionId = None\<rparr> \<noteq> JsonNull"
    by simp
  have no_handle: "\<forall>d. JsonObject \<lparr>sessionId = None\<rparr> = JsonObject d \<longrightarrow> \<not> truthy (sessionId d)"
    by auto
  have stored: "kv_set_fault ?e = None"
    by (simp add: production_env_def)
  from missing_session_id_becomes_unknown
         [OF gate body classified actionable fresh published prompt response not_null no_handle]
    stored
  show ?thesis by (simp add: sdk_js_release_def generateEventKey_def production_env_def)
qed

text \<open>
  C1, as stated, fails: the store write is inside the handler's \<open>try\<close> block, so when
  the dispatch has succeeded and \<open>kv.set\<close> throws, the handler answers \<open>error\<close>.
\<close>

theorem store_write_failure_counterexample:
  "fst (callDevinAPI (production_env\<lparr>kv_set_fault := Some (Error ''store unavailable'')\<rparr>)
          ''Update the changelog of sdk-js for v1.4.0'') =
     Inr \<lparr>result_sessionId = ''devin-42'', result_status = 200\<rparr> \<and>
   kv_set (production_env\<lparr>kv_set_fault := Some (Error ''store unavailable'')\<rparr>) Map.empty
     processed_events ''changelog-event:sdk-js:v1.4.0:release''
     [(''repository'', ''sdk-js''), (''version'', ''v1.4.0''), (''eventType'', ''release''),
      (''processedAt'', ''2025-05-01T12:00:00.000Z''), (''devinSessionId'', ''devin-42'')] =
     Inl (Error ''store unavailable'') \<and>
   ChangelogAgent (production_env\<lparr>kv_set_fault := Some (Error ''store unavailable'')\<rparr>)
     signed_request Map.empty =
     (Inr [(''status'', ''error''), (''message'', ''store unavailable'')], Map.empty,
      [Log Info ''Received webhook request'', VerifyCalled,
       Log Info ''Webhook signature verified successfully'', ClassifierCalled,
       Log Info ''Webhook analysis:'',
       KvGet ''agent-changelog-processed-events'' ''changelog-event:sdk-js:v1.4.0:release'',
       Log Info ''Existing event:'', SynthesizerCalled, Log Info ''Generated Devin prompt'',
       Log Info ''Calling Devin API'', DispatcherCalled, Log Info ''Devin API response:'',
       KvSet ''agent-changelog-processed-events'' ''changelog-event:sdk-js:v1.4.0:release'',
       Log Err ''Error processing webhook: %o'']) \<and>
   fst (ChangelogAgent (production_env\<lparr>kv_set_fault := Some (Error ''store unavailable'')\<rparr>)
          signed_request Map.empty) \<noteq>
     Inr [(''status'', ''success''), (''repository'', ''sdk-js''), (''eventType'', ''release''),
          (''version'', ''v1.4.0''), (''devinSessionId'', ''devin-42'')]"
  by (simp add: pipeline_defs example_defs)

text \<open>
  C1, amended. When the dispatch succeeds and the store write that follows throws, the
  handler answers \<open>error\<close> with the message of the thrown value, after the dispatcher
  has been called; the failure is logged by the handler's \<open>catch\<close>, and the store is
  unchanged.
\<close>

theorem store_write_failure_is_an_error:
  assumes gate: "AGENTUITY_ENVIRONMENT e = Some ''development'' \<or>
                 success (fst (verifyGitHubWebhook e req))"
    and body: "req_object req = Inr body"
    and classified: "generateObject e (req_text req) = Inr a"
    and actionable: "isReleaseOrTagEvent a" "isSupported a"
    and fresh: "kv_get e st processed_events
                  (generateEventKey (repositoryName a) (version a) (event_type_str (eventType a))) =
                Inr False"
    and published: "eventType a = Release \<longrightarrow>
                    (case payload body of None \<Rightarrow> None | Some p \<Rightarrow> action p) = Some ''published''"
    and prompt: "generateText e (repositoryName a, event_type_str (eventType a),
                   or_else (Some (version a)) ''unknown - figure it out'', req_text req) = Inr p"
    and dispatched: "fst (callDevinAPI e p) = Inr d"
    and write_failed: "kv_set_fault e = Some err"
  shows "\<exists>tr. ChangelogAgent e req st =
                 (Inr [(''status'', ''error''), (''message'', error_message err)], st,
                  tr @ [Log Err ''Error processing webhook: %o'']) \<and>
               DispatcherCalled \<in> set tr"
proof -
  let ?k = "generateEventKey (repositoryName a) (version a) (event_type_str (eventType a))"
  obtain evs' where sent: "callDevinAPI e p = (Inr d, evs')"
    using dispatched by (cases "callDevinAPI e p") simp
  with callDevinAPI_dispatches [of e p] have called: "DispatcherCalled \<in> set evs'" by simp
  from reaches_dispatch [OF gate body classified actionable fresh published]
  obtain evs where
    run: "ChangelogAgent_try e req st = emit evs (synthesize_and_dispatch e req a ?k st)"
    by blast
  from run have "ChangelogAgent_try e req st =
      emit evs (Inl err, st,
        [SynthesizerCalled, Log Info ''Generated Devin prompt''] @ evs' @ [KvSet processed_events ?k])"
    by (simp add: synth_write_failed [OF prompt sent write_failed])
  from handler_emit_error [OF this]
  have "ChangelogAgent e req st =
      (Inr [(''status'', ''error''), (''message'', error_message err)], st,
       (evs @ [SynthesizerCalled, Log Info ''Generated Devin prompt''] @ evs' @
          [KvSet processed_events ?k]) @ [Log Err ''Error processing webhook: %o''])"
    by simp
  moreover from called have "DispatcherCalled \<in>
      set (evs @ [SynthesizerCalled, Log Info ''Generated Devin prompt''] @ evs' @
          [KvSet processed_events ?k])" by simp
  ultimately show ?thesis by blast
qed

theorem store_write_failure_is_an_error_witness:
  "fst (callDevinAPI (production_env\<lparr>kv_set_fault := Some (Thrown ''ECONNRESET'')\<rparr>)
          ''Update the changelog of sdk-js for v1.4.0'') =
     Inr \<lparr>result_sessionId = ''devin-42'', result_status = 200\<rparr> \<and>
   (\<exists>tr. ChangelogAgent (production_env\<lparr>kv_set_fault := Some (Thrown ''ECONNRESET'')\<rparr>)
            signed_request Map.empty =
            (Inr [(''status'', ''error''), (''message'', ''ECONNRESET'')], Map.empty,
             tr @ [Log Err ''Error processing webhook: %o'']) \<and>
          DispatcherCalled \<in> set tr)"
proof -
  let ?e = "production_env\<lparr>kv_set_fault := Some (Thrown ''ECONNRESET'')\<rparr>"
  let ?p = "''Update the changelog of sdk-js for v1.4.0''"
  have gate: "AGENTUITY_ENVIRONMENT ?e = Some ''development'' \<or>
              success (fst (verifyGitHubWebhook ?e signed_request))"
    by (simp add: pipeline_defs example_defs)
  have body: "req_object signed_request = Inr \<lparr>payload = Some \<lparr>action = Some ''published''\<rparr>\<rparr>"
    by (simp add: signed_request_def)
  have classified: "generateObject ?e (req_text signed_request) = Inr sdk_js_release"
    by (simp add: production_env_def)
  have actionable: "isReleaseOrTagEvent sdk_js_release" "isSupported sdk_js_release"
    by (simp_all add: sdk_js_release_def)
  have fresh: "kv_get ?e Map.empty processed_events
                 (generateEventKey (repositoryName sdk_js_release) (version sdk_js_release)
                    (event_type_str (eventType sdk_js_release))) = Inr False"
    by (simp add: kv_get_def production_env_def)
  have published: "eventType sdk_js_release = Release \<longrightarrow>
      (case payload \<lparr>payload = Some \<lparr>action = Some ''published''\<rparr>\<rparr> of
         None \<Rightarrow> None | Some p \<Rightarrow> action p) = Some ''published''"
    by simp
  have prompt: "generateText ?e (repositoryName sdk_js_release,
        event_type_str (eventType sdk_js_release),
        or_else (Some (version sdk_js_release)) ''unknown - figure it out'',
        req_text signed_request) = Inr ?p"
    by (simp add: production_env_def)
  have dispatched: "fst (callDevinAPI ?e ?p) =
      Inr \<lparr>result_sessionId = ''devin-42'', result_status = 200\<rparr>"
    by (simp add: callDevinAPI_def callDevinAPI_try_def production_env_def)
  have write_failed: "kv_set_fault ?e = Some (Thrown ''ECONNRESET'')"
    by simp
  from store_write_failure_is_an_error
         [OF gate body classified actionable fresh published prompt dispatched write_failed]
    dispatched
  show ?thesis by simp
qed

end
